theory Spec2Isabelle
  imports Main
begin

section \<open>Strings\<close>

text \<open>Python's \<^verbatim>\<open>str.startswith\<close>: the second argument is a prefix of the first.\<close>

fun startswith :: "string \<Rightarrow> string \<Rightarrow> bool" where
  "startswith s [] = True"
| "startswith [] (p # ps) = False"
| "startswith (c # cs) (p # ps) = (c = p \<and> startswith cs ps)"

text \<open>Python's \<^verbatim>\<open>needle in haystack\<close> on strings: the needle occurs as a contiguous run.\<close>

fun contains :: "string \<Rightarrow> string \<Rightarrow> bool" where
  "contains [] needle = (needle = [])"
| "contains (c # cs) needle = (startswith (c # cs) needle \<or> contains cs needle)"

section \<open>Exceptions\<close>

text \<open>
  The exceptions the handler distinguishes. In Python \<^verbatim>\<open>TimeoutException\<close> is a subclass
  of \<^verbatim>\<open>WebDriverException\<close>, which is a subclass of \<^verbatim>\<open>Exception\<close>; FastAPI's
  \<^verbatim>\<open>HTTPException(status_code, detail)\<close> is a subclass of \<^verbatim>\<open>Exception\<close> too.
  \<open>WebDriverException\<close> stands for every instance of that class that is not a
  \<^verbatim>\<open>TimeoutException\<close>, and \<open>Exception\<close> for every other instance of \<^verbatim>\<open>Exception\<close>
  (a refused connection raised by the HTTP client, a \<^verbatim>\<open>TypeError\<close>, ...).
  Every failure of a call to the remote end is an instance of \<^verbatim>\<open>Exception\<close>; signals to the
  process (\<^verbatim>\<open>KeyboardInterrupt\<close>, \<^verbatim>\<open>SystemExit\<close>) are outside the model.
\<close>

datatype exn =
    TimeoutException
  | WebDriverException
  | Exception
  | HTTPException nat string

fun isinstance_TimeoutException :: "exn \<Rightarrow> bool" where
  "isinstance_TimeoutException TimeoutException = True"
| "isinstance_TimeoutException _ = False"

fun isinstance_WebDriverException :: "exn \<Rightarrow> bool" where
  "isinstance_WebDriverException TimeoutException = True"
| "isinstance_WebDriverException WebDriverException = True"
| "isinstance_WebDriverException _ = False"

section \<open>The remote end\<close>

text \<open>
  \<^verbatim>\<open>chrome_options\<close> as \<^verbatim>\<open>create_driver\<close> builds it: the command-line arguments (the
  headless flag is commented out in the source) and the \<^verbatim>\<open>prefs\<close> experimental option.
\<close>

record Options =
  arguments :: "string list"
  prefs :: "(string \<times> nat) list"

definition chrome_options :: Options where
  "chrome_options = \<lparr>
     arguments = [
       ''--no-sandbox'',
       ''--disable-dev-shm-usage'',
       ''--disable-gpu'',
       ''--window-size=1920,1080'',
       ''--user-agent=Mozilla/5.0 (Windows NT 10.0; Win64; x64) AppleWebKit/537.36 (KHTML, like Gecko) Chrome/91.0.4472.124 Safari/537.36''],
     prefs = [
       (''profile.managed_default_content_settings.images'', 2),
       (''profile.managed_default_content_settings.stylesheets'', 2)] \<rparr>"

text \<open>\<^verbatim>\<open>(By.TAG_NAME, "body")\<close>: a locator is a strategy and a value.\<close>

datatype By = TAG_NAME

type_synonym locator = "By \<times> string"

text \<open>
  The calls the service makes to the remote end, with their arguments:
  \<^verbatim>\<open>webdriver.Remote(command_executor=..., options=...)\<close>,
  \<^verbatim>\<open>driver.set_page_load_timeout(t)\<close>, \<^verbatim>\<open>driver.get(url)\<close>,
  \<^verbatim>\<open>WebDriverWait(driver, t).until(EC.presence_of_element_located(loc))\<close>,
  \<^verbatim>\<open>driver.page_source\<close> and \<^verbatim>\<open>driver.quit()\<close>.
\<close>

datatype call =
    Remote string Options
  | Set_page_load_timeout nat
  | Get string
  | Until nat locator
  | Page_source
  | Quit

text \<open>
  What the remote end does is not decided by the service. It is a parameter of the model: for
  each call, whether it returns (\<open>None\<close>, or \<open>Inr\<close> the value) or raises (\<open>Some e\<close>,
  \<open>Inl e\<close>). A handler run makes each call at most once, so one answer per call is enough.
\<close>

record remote =
  Remote_result :: "string \<Rightarrow> exn option"
  set_page_load_timeout_result :: "nat \<Rightarrow> exn option"
  get_result :: "string \<Rightarrow> exn option"
  until_result :: "nat \<Rightarrow> locator \<Rightarrow> exn option"
  page_source_result :: "exn + string"
  quit_result :: "exn option"

text \<open>
  The effect of a run on the remote end is the sequence of calls it made, each with how it
  ended: what a test double of the remote end records.
\<close>

type_synonym trace = "(call \<times> exn option) list"

text \<open>The driver object: the handle of one session, opened at \<open>command_executor\<close>.\<close>

datatype driver = WebDriver string

section \<open>Configuration\<close>

text \<open>
  \<^verbatim>\<open>SELENIUM_HUB_URL = os.getenv("SELENIUM_HUB_URL", "http://localhost:4444/wd/hub")\<close>,
  read once from the process environment.
\<close>

definition SELENIUM_HUB_URL :: "(string \<rightharpoonup> string) \<Rightarrow> string" where
  "SELENIUM_HUB_URL environ =
     (case environ ''SELENIUM_HUB_URL'' of
        None \<Rightarrow> ''http://localhost:4444/wd/hub''
      | Some v \<Rightarrow> v)"

section \<open>create\_driver\<close>

text \<open>
  One \<^verbatim>\<open>try\<close> covers both \<^verbatim>\<open>webdriver.Remote(...)\<close> and
  \<^verbatim>\<open>driver.set_page_load_timeout(30)\<close>; \<^verbatim>\<open>except Exception\<close> turns either failure into
  \<^verbatim>\<open>HTTPException(500, "Failed to connect to remote browser at <hub>")\<close>. The function takes
  the trace so far and returns it extended.
\<close>

definition create_driver :: "string \<Rightarrow> remote \<Rightarrow> trace \<Rightarrow> (exn + driver) \<times> trace" where
  "create_driver hub env tr =
     (case Remote_result env hub of
        Some e \<Rightarrow>
          (Inl (HTTPException 500 (''Failed to connect to remote browser at '' @ hub)),
           tr @ [(Remote hub chrome_options, Some e)])
      | None \<Rightarrow>
          (case set_page_load_timeout_result env 30 of
             Some e \<Rightarrow>
               (Inl (HTTPException 500 (''Failed to connect to remote browser at '' @ hub)),
                tr @ [(Remote hub chrome_options, None), (Set_page_load_timeout 30, Some e)])
           | None \<Rightarrow>
               (Inr (WebDriver hub),
                tr @ [(Remote hub chrome_options, None), (Set_page_load_timeout 30, None)])))"

section \<open>fetch\_page\<close>

text \<open>
  The body of the \<^verbatim>\<open>try\<close> statement: the value returned or the exception raised, the
  variable \<^verbatim>\<open>driver\<close> as it stands when the body is left (\<^verbatim>\<open>None\<close> until
  \<^verbatim>\<open>create_driver\<close> has returned), and the trace.
\<close>

definition try_body :: "string \<Rightarrow> remote \<Rightarrow> string \<Rightarrow> (exn + string) \<times> driver option \<times> trace" where
  "try_body hub env url =
     (case create_driver hub env [] of
        (Inl e, tr) \<Rightarrow> (Inl e, None, tr)
      | (Inr d, tr) \<Rightarrow>
          (case get_result env url of
             Some e \<Rightarrow> (Inl e, Some d, tr @ [(Get url, Some e)])
           | None \<Rightarrow>
               (case until_result env 10 (TAG_NAME, ''body'') of
                  Some e \<Rightarrow>
                    (Inl e, Some d,
                     tr @ [(Get url, None), (Until 10 (TAG_NAME, ''body''), Some e)])
                | None \<Rightarrow>
                    (case page_source_result env of
                       Inl e \<Rightarrow>
                         (Inl e, Some d,
                          tr @ [(Get url, None), (Until 10 (TAG_NAME, ''body''), None),
                                (Page_source, Some e)])
                     | Inr page_source \<Rightarrow>
                         (Inr page_source, Some d,
                          tr @ [(Get url, None), (Until 10 (TAG_NAME, ''body''), None),
                                (Page_source, None)])))))"

text \<open>
  The three \<^verbatim>\<open>except\<close> clauses, tried in the order of the source. The last one,
  \<^verbatim>\<open>except Exception\<close>, matches every exception of the model, an \<^verbatim>\<open>HTTPException\<close>
  raised by \<^verbatim>\<open>create_driver\<close> included.
\<close>

definition except_clauses :: "exn \<Rightarrow> exn" where
  "except_clauses e =
     (if isinstance_TimeoutException e then HTTPException 408 ''Page load timeout''
      else if isinstance_WebDriverException e then HTTPException 500 ''Browser error occurred''
      else HTTPException 500 ''Internal server error'')"

text \<open>
  The \<^verbatim>\<open>finally\<close> clause: \<^verbatim>\<open>if driver:\<close> holds exactly when the variable is not
  \<^verbatim>\<open>None\<close>; an exception of \<^verbatim>\<open>driver.quit()\<close> is logged and dropped.
\<close>

definition finally_clause :: "remote \<Rightarrow> driver option \<Rightarrow> trace \<Rightarrow> trace" where
  "finally_clause env driver tr =
     (case driver of
        None \<Rightarrow> tr
      | Some d \<Rightarrow> tr @ [(Quit, quit_result env)])"

text \<open>
  The handler: \<open>Inr\<close> the content of the \<^verbatim>\<open>HTMLResponse\<close> it returns, \<open>Inl\<close> the exception
  it raises, and the trace of its calls to the remote end. \<^verbatim>\<open>not url\<close> holds exactly for the
  empty string.
\<close>

definition fetch_page :: "string \<Rightarrow> remote \<Rightarrow> string \<Rightarrow> (exn + string) \<times> trace" where
  "fetch_page hub env url =
     (if url = [] then
        (Inl (HTTPException 400 ''URL parameter is required''), [])
      else if \<not> (startswith url ''http://'' \<or> startswith url ''https://'') then
        (Inl (HTTPException 400 ''URL must start with http:// or https://''), [])
      else
        (case try_body hub env url of
           (r, driver, tr) \<Rightarrow>
             (case r of
                Inl e \<Rightarrow> (Inl (except_clauses e), finally_clause env driver tr)
              | Inr page_source \<Rightarrow> (Inr page_source, finally_clause env driver tr))))"

section \<open>health\_check and info\<close>

definition health_check :: "(string \<times> string) list" where
  "health_check = [(''status'', ''healthy''), (''service'', ''selenium-scraper'')]"

definition info :: "string \<Rightarrow> (string \<times> string) list" where
  "info hub = [
     (''title'', ''Selenium Web Scraper''),
     (''description'', ''FastAPI server that fetches web pages using Selenium''),
     (''selenium_hub'', hub),
     (''usage'', ''GET /?url=<target_url>''),
     (''example'', ''/?url=https://example.com'')]"

section \<open>The routes\<close>

text \<open>
  The three routes registered on \<^verbatim>\<open>app\<close>. The query parameter of the fetch route is
  declared \<^verbatim>\<open>url: str = Query(...)\<close>: the ellipsis makes it required, so a request that
  does not carry it (\<open>None\<close>) is answered by the framework with its request validation error,
  status 422, and the handler is not called.
\<close>

datatype request =
    GET_root "string option"
  | GET_health
  | GET_info

datatype payload =
    HTML string
  | JSON "(string \<times> string) list"
  | RequestValidationError "string list"
  | PlainText string

record response =
  status_code :: nat
  payload :: payload

text \<open>
  How the framework answers an exception that leaves a handler: an \<^verbatim>\<open>HTTPException\<close>
  becomes a response with its status code and the body \<^verbatim>\<open>{"detail": detail}\<close>, any other
  exception the server's plain 500.
\<close>

fun exception_response :: "exn \<Rightarrow> response" where
  "exception_response (HTTPException status detail) =
     \<lparr>status_code = status, payload = JSON [(''detail'', detail)]\<rparr>"
| "exception_response _ =
     \<lparr>status_code = 500, payload = PlainText ''Internal Server Error''\<rparr>"

definition app :: "(string \<rightharpoonup> string) \<Rightarrow> remote \<Rightarrow> request \<Rightarrow> response \<times> trace" where
  "app environ env req =
     (case req of
        GET_root None \<Rightarrow>
          (\<lparr>status_code = 422, payload = RequestValidationError [''query'', ''url'']\<rparr>, [])
      | GET_root (Some url) \<Rightarrow>
          (case fetch_page (SELENIUM_HUB_URL environ) env url of
             (Inl e, tr) \<Rightarrow> (exception_response e, tr)
           | (Inr page_source, tr) \<Rightarrow> (\<lparr>status_code = 200, payload = HTML page_source\<rparr>, tr))
      | GET_health \<Rightarrow> (\<lparr>status_code = 200, payload = JSON health_check\<rparr>, [])
      | GET_info \<Rightarrow> (\<lparr>status_code = 200, payload = JSON (info (SELENIUM_HUB_URL environ))\<rparr>, []))"

text \<open>The detail string of an error response.\<close>

fun detail_of :: "response \<Rightarrow> string option" where
  "detail_of r =
     (case payload r of
        JSON kvs \<Rightarrow> map_of kvs ''detail''
      | _ \<Rightarrow> None)"

section \<open>Reading a trace\<close>

text \<open>
  Sessions opened: the calls of \<^verbatim>\<open>webdriver.Remote\<close> that returned. Closes attempted: the
  calls of \<^verbatim>\<open>quit\<close>, however they ended.
\<close>

fun is_Remote :: "call \<Rightarrow> bool" where
  "is_Remote (Remote h opts) = True"
| "is_Remote _ = False"

definition sessions_opened :: "trace \<Rightarrow> nat" where
  "sessions_opened tr = length (filter (\<lambda>(c, r). is_Remote c \<and> r = None) tr)"

definition closes_attempted :: "trace \<Rightarrow> nat" where
  "closes_attempted tr = length (filter (\<lambda>(c, r). c = Quit) tr)"

text \<open>
  Sessions still open at the end of a trace, counting a close as releasing the session
  whether or not \<^verbatim>\<open>quit\<close> reported an error (the release is best effort).
\<close>

fun sessions_open_after :: "trace \<Rightarrow> nat \<Rightarrow> nat" where
  "sessions_open_after [] n = n"
| "sessions_open_after ((c, r) # tr) n =
     (if is_Remote c \<and> r = None then sessions_open_after tr (Suc n)
      else if c = Quit then sessions_open_after tr (n - 1)
      else sessions_open_after tr n)"

text \<open>The page-load timeouts and the readiness-wait timeouts a trace sets.\<close>

fun page_load_timeouts :: "trace \<Rightarrow> nat list" where
  "page_load_timeouts [] = []"
| "page_load_timeouts ((Set_page_load_timeout t, r) # tr) = t # page_load_timeouts tr"
| "page_load_timeouts (_ # tr) = page_load_timeouts tr"

fun wait_timeouts :: "trace \<Rightarrow> nat list" where
  "wait_timeouts [] = []"
| "wait_timeouts ((Until t loc, r) # tr) = t # wait_timeouts tr"
| "wait_timeouts (_ # tr) = wait_timeouts tr"

text \<open>
  The page-load timeout in force at each navigation: the last one set successfully before the
  \<^verbatim>\<open>get\<close>, \<open>None\<close> when there is none.
\<close>

fun navigation_timeouts :: "trace \<Rightarrow> nat option \<Rightarrow> nat option list" where
  "navigation_timeouts [] cur = []"
| "navigation_timeouts ((Set_page_load_timeout t, None) # tr) cur = navigation_timeouts tr (Some t)"
| "navigation_timeouts ((Get url, r) # tr) cur = cur # navigation_timeouts tr cur"
| "navigation_timeouts (_ # tr) cur = navigation_timeouts tr cur"

section \<open>Environments and remote ends used as examples\<close>

text \<open>A process environment that does not set \<^verbatim>\<open>SELENIUM_HUB_URL\<close>.\<close>

definition environ_default :: "string \<rightharpoonup> string" where
  "environ_default = Map.empty"

text \<open>A remote end on which every call succeeds and the page is a small document.\<close>

definition remote_up :: remote where
  "remote_up = \<lparr>
     Remote_result = (\<lambda>h. None),
     set_page_load_timeout_result = (\<lambda>t. None),
     get_result = (\<lambda>u. None),
     until_result = (\<lambda>t loc. None),
     page_source_result = Inr ''<html><body>Hello</body></html>'',
     quit_result = None \<rparr>"

text \<open>A remote end that cannot be reached: opening a session raises.\<close>

definition remote_down :: remote where
  "remote_down = remote_up \<lparr> Remote_result := (\<lambda>h. Some Exception) \<rparr>"

text \<open>A remote end where the body element never appears: the wait raises its timeout.\<close>

definition remote_no_body :: remote where
  "remote_no_body = remote_up \<lparr> until_result := (\<lambda>t loc. Some TimeoutException) \<rparr>"

text \<open>A remote end where the page does not load within the page-load timeout.\<close>

definition remote_slow_page :: remote where
  "remote_slow_page = remote_up \<lparr> get_result := (\<lambda>u. Some TimeoutException) \<rparr>"

text \<open>A remote end where closing the session fails.\<close>

definition remote_quit_fails :: remote where
  "remote_quit_fails = remote_up \<lparr> quit_result := Some WebDriverException \<rparr>"

section \<open>Shared lemmas\<close>

lemmas handler_defs = fetch_page_def try_body_def create_driver_def except_clauses_def
  finally_clause_def

lemmas example_defs = environ_default_def SELENIUM_HUB_URL_def remote_up_def remote_down_def
  remote_no_body_def remote_slow_page_def remote_quit_fails_def

lemma startswith_nonempty:
  "startswith url (p # ps) \<Longrightarrow> url \<noteq> []"
  by (cases url) simp_all

lemma valid_url_nonempty:
  "startswith url ''http://'' \<or> startswith url ''https://'' \<Longrightarrow> url \<noteq> []"
  by (auto dest: startswith_nonempty)

lemma fetch_page_empty:
  "fetch_page hub env [] = (Inl (HTTPException 400 ''URL parameter is required''), [])"
  by (simp add: fetch_page_def)

lemma fetch_page_bad_scheme:
  assumes "url \<noteq> []" and "\<not> (startswith url ''http://'' \<or> startswith url ''https://'')"
  shows "fetch_page hub env url =
    (Inl (HTTPException 400 ''URL must start with http:// or https://''), [])"
  using assms by (simp add: fetch_page_def)

text \<open>Past the two checks the handler is its \<^verbatim>\<open>try\<close> statement.\<close>

lemma fetch_page_valid:
  assumes "startswith url ''http://'' \<or> startswith url ''https://''"
  shows "fetch_page hub env url =
    (case try_body hub env url of
       (Inl e, driver, tr) \<Rightarrow> (Inl (except_clauses e), finally_clause env driver tr)
     | (Inr page_source, driver, tr) \<Rightarrow> (Inr page_source, finally_clause env driver tr))"
proof -
  have "url \<noteq> []" using assms by (rule valid_url_nonempty)
  with assms show ?thesis
    by (simp add: fetch_page_def split: prod.splits sum.splits)
qed

lemma create_driver_Remote_fails:
  assumes "Remote_result env hub = Some e"
  shows "create_driver hub env tr =
    (Inl (HTTPException 500 (''Failed to connect to remote browser at '' @ hub)),
     tr @ [(Remote hub chrome_options, Some e)])"
  using assms by (simp add: create_driver_def)

lemma create_driver_returns:
  assumes "Remote_result env hub = None" and "set_page_load_timeout_result env 30 = None"
  shows "create_driver hub env tr =
    (Inr (WebDriver hub),
     tr @ [(Remote hub chrome_options, None), (Set_page_load_timeout 30, None)])"
  using assms by (simp add: create_driver_def)

lemma fetch_page_Remote_fails:
  assumes "startswith url ''http://'' \<or> startswith url ''https://''"
    and "Remote_result env hub = Some e"
  shows "fetch_page hub env url =
    (Inl (HTTPException 500 ''Internal server error''),
     [(Remote hub chrome_options, Some e)])"
  using assms(2)
  by (simp add: fetch_page_valid [OF assms(1)] try_body_def create_driver_def
      except_clauses_def finally_clause_def)

lemma fetch_page_get_timeout:
  assumes "startswith url ''http://'' \<or> startswith url ''https://''"
    and "Remote_result env hub = None" and "set_page_load_timeout_result env 30 = None"
    and "get_result env url = Some TimeoutException"
  shows "fst (fetch_page hub env url) = Inl (HTTPException 408 ''Page load timeout'')"
  using assms(2-)
  by (simp add: fetch_page_valid [OF assms(1)] try_body_def create_driver_def
      except_clauses_def)

lemma fetch_page_until_timeout:
  assumes "startswith url ''http://'' \<or> startswith url ''https://''"
    and "Remote_result env hub = None" and "set_page_load_timeout_result env 30 = None"
    and "get_result env url = None"
    and "until_result env 10 (TAG_NAME, ''body'') = Some TimeoutException"
  shows "fst (fetch_page hub env url) = Inl (HTTPException 408 ''Page load timeout'')"
  using assms(2-)
  by (simp add: fetch_page_valid [OF assms(1)] try_body_def create_driver_def
      except_clauses_def)

lemma fst_app_GET_root:
  "fst (app environ env (GET_root (Some url))) =
    (case fst (fetch_page (SELENIUM_HUB_URL environ) env url) of
       Inl e \<Rightarrow> exception_response e
     | Inr page_source \<Rightarrow> \<lparr>status_code = 200, payload = HTML page_source\<rparr>)"
  by (simp add: app_def split: prod.splits sum.splits)

lemma snd_app_GET_root:
  "snd (app environ env (GET_root (Some url))) =
     snd (fetch_page (SELENIUM_HUB_URL environ) env url)"
  by (simp add: app_def split: prod.splits sum.splits)

text \<open>The answer of \<^verbatim>\<open>driver.quit()\<close> reaches the trace only.\<close>

lemma fetch_page_quit_result:
  "fst (fetch_page hub (env\<lparr>quit_result := q\<rparr>) url) = fst (fetch_page hub env url)"
  by (simp add: fetch_page_def try_body_def create_driver_def
      split: option.splits sum.splits prod.splits)

text \<open>The trace of a run in which the session was created.\<close>

lemma fetch_page_trace_session:
  assumes "startswith url ''http://'' \<or> startswith url ''https://''"
    and "Remote_result env hub = None" and "set_page_load_timeout_result env 30 = None"
  shows "sessions_opened (snd (fetch_page hub env url)) = 1"
    and "closes_attempted (snd (fetch_page hub env url)) = 1"
    and "last (snd (fetch_page hub env url)) = (Quit, quit_result env)"
    and "sessions_open_after (snd (fetch_page hub env url)) 0 = 0"
  using assms(2-)
  by (simp_all add: fetch_page_valid [OF assms(1)] try_body_def create_driver_def
      finally_clause_def sessions_opened_def closes_attempted_def
      split: option.splits sum.splits)

lemma fetch_page_timeouts:
  "\<forall>t \<in> set (page_load_timeouts (snd (fetch_page hub env url))). t = 30"
  "\<forall>t \<in> set (wait_timeouts (snd (fetch_page hub env url))). t = 10"
  "\<forall>t \<in> set (navigation_timeouts (snd (fetch_page hub env url)) None). t = Some 30"
  by (simp_all add: handler_defs split: option.splits sum.splits)

text \<open>
  When \<^verbatim>\<open>set_page_load_timeout\<close> raises, the session exists at the remote end, but
  \<^verbatim>\<open>create_driver\<close> raises instead of returning it: the variable \<^verbatim>\<open>driver\<close> of the
  handler stays \<^verbatim>\<open>None\<close> and no \<^verbatim>\<open>quit\<close> follows.
\<close>

lemma fetch_page_timeout_setting_fails:
  assumes "startswith url ''http://'' \<or> startswith url ''https://''"
    and "Remote_result env hub = None" and "set_page_load_timeout_result env 30 = Some e"
  shows "fetch_page hub env url =
    (Inl (HTTPException 500 ''Internal server error''),
     [(Remote hub chrome_options, None), (Set_page_load_timeout 30, Some e)])"
  using assms(2-)
  by (simp add: fetch_page_valid [OF assms(1)] try_body_def create_driver_def
      except_clauses_def finally_clause_def)

section \<open>The fetch route: validation\<close>

subsection \<open>C1: a request without the parameter\<close>

text \<open>
  C1, as the code has it. A request to the fetch route that carries no \<^verbatim>\<open>url\<close> parameter
  is answered 422 by the framework, for every remote end, with no call to the remote end:
  the parameter is declared required, so the handler does not run. A request whose
  \<^verbatim>\<open>url\<close> is supplied and empty is answered 400 with the detail
  \<^verbatim>\<open>URL parameter is required\<close>.
\<close>

theorem url_parameter_required:
  "app environ env (GET_root None) =
     (\<lparr>status_code = 422, payload = RequestValidationError [''query'', ''url'']\<rparr>, [])
   \<and> app environ env (GET_root (Some [])) =
     (\<lparr>status_code = 400, payload = JSON [(''detail'', ''URL parameter is required'')]\<rparr>, [])"
  by (simp add: app_def fetch_page_def)

text \<open>
  C1 as stated asks for status 400 when the parameter is not supplied. The request without
  \<^verbatim>\<open>url\<close> is not answered 400.
\<close>

theorem missing_url_is_not_400:
  "status_code (fst (app environ_default remote_up (GET_root None))) \<noteq> 400"
  by (simp add: app_def)

subsection \<open>C3: a URL with another scheme\<close>

text \<open>
  C3, as the code has it. Every request whose \<^verbatim>\<open>url\<close> starts with neither
  \<^verbatim>\<open>http://\<close> nor \<^verbatim>\<open>https://\<close> is answered 400; when that \<^verbatim>\<open>url\<close> is not empty
  the detail is \<^verbatim>\<open>URL must start with http:// or https://\<close> and the remote end is not
  called.
\<close>

theorem bad_scheme_is_400:
  assumes "\<not> (startswith url ''http://'' \<or> startswith url ''https://'')"
  shows "status_code (fst (app environ env (GET_root (Some url)))) = 400
    \<and> (url \<noteq> [] \<longrightarrow>
         app environ env (GET_root (Some url)) =
           (\<lparr>status_code = 400,
             payload = JSON [(''detail'', ''URL must start with http:// or https://'')]\<rparr>, []))"
  using assms by (simp add: app_def fetch_page_def)

text \<open>The example of the specification, \<^verbatim>\<open>url=ftp://example.com\<close>.\<close>

theorem bad_scheme_is_400_witness:
  "\<not> (startswith ''ftp://example.com'' ''http://'' \<or> startswith ''ftp://example.com'' ''https://'')
   \<and> ''ftp://example.com'' \<noteq> []
   \<and> app environ_default remote_up (GET_root (Some ''ftp://example.com'')) =
       (\<lparr>status_code = 400,
         payload = JSON [(''detail'', ''URL must start with http:// or https://'')]\<rparr>, [])"
proof -
  have h: "\<not> (startswith ''ftp://example.com'' ''http://''
             \<or> startswith ''ftp://example.com'' ''https://'')"
    by simp
  from bad_scheme_is_400 [OF h, of environ_default remote_up] h show ?thesis
    by simp
qed

text \<open>
  C3 as stated gives that detail to every \<^verbatim>\<open>url\<close> without one of the two prefixes. The
  empty \<^verbatim>\<open>url\<close> has neither prefix, and its 400 carries the detail of the first check.
\<close>

theorem empty_url_has_other_detail:
  "\<not> (startswith [] ''http://'' \<or> startswith [] ''https://'')
   \<and> detail_of (fst (app environ_default remote_up (GET_root (Some []))))
       \<noteq> Some ''URL must start with http:// or https://''"
  by (simp add: app_def fetch_page_def)

subsection \<open>C9: a rejected request does not reach the remote end\<close>

text \<open>
  C9, as the code has it. A request that fails validation (no \<^verbatim>\<open>url\<close>, an empty one,
  or one that starts with neither prefix) makes no call to the remote end: the trace is
  empty, so \<^verbatim>\<open>create_driver\<close> was not called. The answer is 400 for an empty or wrongly
  prefixed \<^verbatim>\<open>url\<close> and the framework's 422 for a missing one.
\<close>

theorem invalid_url_never_reaches_remote:
  assumes "u = None \<or> u = Some [] \<or>
     (\<exists>url. u = Some url \<and> \<not> (startswith url ''http://'' \<or> startswith url ''https://''))"
  shows "snd (app environ env (GET_root u)) = []
    \<and> status_code (fst (app environ env (GET_root u))) = (if u = None then 422 else 400)"
  using assms by (auto simp add: app_def fetch_page_def)

theorem invalid_url_never_reaches_remote_witness:
  "app environ_default remote_up (GET_root None) =
     (\<lparr>status_code = 422, payload = RequestValidationError [''query'', ''url'']\<rparr>, [])
   \<and> snd (app environ_default remote_up (GET_root (Some []))) = []
   \<and> status_code (fst (app environ_default remote_up (GET_root (Some [])))) = 400
   \<and> snd (app environ_default remote_up (GET_root (Some ''ftp://example.com''))) = []
   \<and> status_code (fst (app environ_default remote_up (GET_root (Some ''ftp://example.com'')))) = 400"
proof -
  have nv: "\<exists>url. Some ''ftp://example.com'' = Some url
      \<and> \<not> (startswith url ''http://'' \<or> startswith url ''https://'')"
    by simp
  from invalid_url_never_reaches_remote [of None environ_default remote_up]
    invalid_url_never_reaches_remote [of "Some []" environ_default remote_up]
    invalid_url_never_reaches_remote [of "Some ''ftp://example.com''" environ_default remote_up]
    nv
  show ?thesis by (simp add: app_def)
qed

text \<open>
  C9 as stated calls the answer to all three cases the 400 response. With the remote end
  down, the request without \<^verbatim>\<open>url\<close> is answered 422.
\<close>

theorem missing_url_is_answered_422:
  "app environ_default remote_down (GET_root None) =
     (\<lparr>status_code = 422, payload = RequestValidationError [''query'', ''url'']\<rparr>, [])
   \<and> status_code (fst (app environ_default remote_down (GET_root None))) \<noteq> 400"
  by (simp add: app_def)

section \<open>The fetch route: failures of the remote end\<close>

subsection \<open>C2: the session cannot be opened\<close>

text \<open>
  C2 at a request for \<^verbatim>\<open>https://example.com\<close> when the remote end cannot be reached and
  \<^verbatim>\<open>SELENIUM_HUB_URL\<close> is not set. \<^verbatim>\<open>create_driver\<close> raises the 500 whose detail names
  the endpoint; the handler's \<^verbatim>\<open>except Exception\<close> catches it and raises its own 500, so
  the response has status 500 and the detail \<^verbatim>\<open>Internal server error\<close>, in which the
  endpoint address does not occur.
\<close>

theorem open_failure_detail_is_masked:
  "fst (create_driver (SELENIUM_HUB_URL environ_default) remote_down []) =
     Inl (HTTPException 500
       ''Failed to connect to remote browser at http://localhost:4444/wd/hub'')
   \<and> fst (app environ_default remote_down (GET_root (Some ''https://example.com''))) =
     \<lparr>status_code = 500, payload = JSON [(''detail'', ''Internal server error'')]\<rparr>
   \<and> \<not> contains ''Internal server error'' (SELENIUM_HUB_URL environ_default)"
  by (simp add: app_def handler_defs example_defs)

subsection \<open>C4: the readiness wait expires\<close>

text \<open>
  C4. When the request passes validation, the session is created, the navigation returns
  and the wait for the body element, with its timeout of 10, raises
  \<^verbatim>\<open>TimeoutException\<close>, the response is 408 (detail \<^verbatim>\<open>Page load timeout\<close>), whatever
  \<^verbatim>\<open>quit\<close> does afterwards.
\<close>

theorem readiness_timeout_is_408:
  assumes "startswith url ''http://'' \<or> startswith url ''https://''"
    and "Remote_result env (SELENIUM_HUB_URL environ) = None"
    and "set_page_load_timeout_result env 30 = None"
    and "get_result env url = None"
    and "until_result env 10 (TAG_NAME, ''body'') = Some TimeoutException"
  shows "fst (app environ env (GET_root (Some url))) =
    \<lparr>status_code = 408, payload = JSON [(''detail'', ''Page load timeout'')]\<rparr>"
  by (simp add: fst_app_GET_root fetch_page_until_timeout [OF assms])

theorem readiness_timeout_is_408_witness:
  "(startswith ''https://example.com'' ''http://'' \<or> startswith ''https://example.com'' ''https://'')
   \<and> Remote_result remote_no_body (SELENIUM_HUB_URL environ_default) = None
   \<and> set_page_load_timeout_result remote_no_body 30 = None
   \<and> get_result remote_no_body ''https://example.com'' = None
   \<and> until_result remote_no_body 10 (TAG_NAME, ''body'') = Some TimeoutException
   \<and> status_code (fst (app environ_default remote_no_body (GET_root (Some ''https://example.com'')))) = 408"
proof -
  have h1: "startswith ''https://example.com'' ''http://'' \<or> startswith ''https://example.com'' ''https://''"
    by simp
  have h2: "Remote_result remote_no_body (SELENIUM_HUB_URL environ_default) = None"
    by (simp add: example_defs)
  have h3: "set_page_load_timeout_result remote_no_body 30 = None"
    by (simp add: example_defs)
  have h4: "get_result remote_no_body ''https://example.com'' = None"
    by (simp add: example_defs)
  have h5: "until_result remote_no_body 10 (TAG_NAME, ''body'') = Some TimeoutException"
    by (simp add: example_defs)
  from readiness_timeout_is_408 [OF h1 h2 h3 h4 h5] h1 h2 h3 h4 h5 show ?thesis
    by simp
qed

subsection \<open>C10: the navigation times out\<close>

text \<open>
  C10. When the request passes validation, the session is created and \<^verbatim>\<open>driver.get\<close>
  raises \<^verbatim>\<open>TimeoutException\<close>, the response is 408 with detail \<^verbatim>\<open>Page load timeout\<close>:
  the response of the same request at a remote end where the navigation returns and the
  readiness wait expires.
\<close>

theorem navigation_timeout_is_408:
  assumes "startswith url ''http://'' \<or> startswith url ''https://''"
    and "Remote_result env (SELENIUM_HUB_URL environ) = None"
    and "set_page_load_timeout_result env 30 = None"
    and "get_result env url = Some TimeoutException"
  shows "fst (app environ env (GET_root (Some url))) =
      \<lparr>status_code = 408, payload = JSON [(''detail'', ''Page load timeout'')]\<rparr>
    \<and> fst (app environ env (GET_root (Some url))) =
      fst (app environ
        (env\<lparr>get_result := (\<lambda>u. None), until_result := (\<lambda>t loc. Some TimeoutException)\<rparr>)
        (GET_root (Some url)))"
proof -
  let ?env' = "env\<lparr>get_result := (\<lambda>u. None), until_result := (\<lambda>t loc. Some TimeoutException)\<rparr>"
  have a: "fst (fetch_page (SELENIUM_HUB_URL environ) env url)
      = Inl (HTTPException 408 ''Page load timeout'')"
    by (rule fetch_page_get_timeout [OF assms])
  have b: "fst (fetch_page (SELENIUM_HUB_URL environ) ?env' url)
      = Inl (HTTPException 408 ''Page load timeout'')"
    using assms(2,3) by (intro fetch_page_until_timeout [OF assms(1)]) simp_all
  show ?thesis by (simp add: fst_app_GET_root a b)
qed

theorem navigation_timeout_is_408_witness:
  "(startswith ''http://example.com/slow'' ''http://'' \<or> startswith ''http://example.com/slow'' ''https://'')
   \<and> Remote_result remote_slow_page (SELENIUM_HUB_URL environ_default) = None
   \<and> set_page_load_timeout_result remote_slow_page 30 = None
   \<and> get_result remote_slow_page ''http://example.com/slow'' = Some TimeoutException
   \<and> fst (app environ_default remote_slow_page (GET_root (Some ''http://example.com/slow''))) =
      \<lparr>status_code = 408, payload = JSON [(''detail'', ''Page load timeout'')]\<rparr>"
proof -
  have h1: "startswith ''http://example.com/slow'' ''http://'' \<or> startswith ''http://example.com/slow'' ''https://''"
    by simp
  have h2: "Remote_result remote_slow_page (SELENIUM_HUB_URL environ_default) = None"
    and h3: "set_page_load_timeout_result remote_slow_page 30 = None"
    and h4: "get_result remote_slow_page ''http://example.com/slow'' = Some TimeoutException"
    by (simp_all add: example_defs)
  from navigation_timeout_is_408 [OF h1 h2 h3 h4] h1 h2 h3 h4 show ?thesis
    by simp
qed

section \<open>The session\<close>

subsection \<open>C5: one session, one close\<close>

text \<open>
  C5, as the code has it. In a run of the handler that passes validation and in which the
  session is created (\<^verbatim>\<open>webdriver.Remote\<close> and the setting of the page-load timeout both
  return), exactly one session is opened and exactly one close is attempted, as the last
  call to the remote end, so that no session stays open, whatever the outcome of the
  navigation, the wait, the read and the close. When \<^verbatim>\<open>webdriver.Remote\<close> raises, no
  session is opened and no close is attempted. When validation fails, the remote end is not
  called at all.
\<close>

theorem one_session_per_fetch:
  "((startswith url ''http://'' \<or> startswith url ''https://'') \<and>
      Remote_result env hub = None \<and> set_page_load_timeout_result env 30 = None \<longrightarrow>
        sessions_opened (snd (fetch_page hub env url)) = 1 \<and>
        closes_attempted (snd (fetch_page hub env url)) = 1 \<and>
        last (snd (fetch_page hub env url)) = (Quit, quit_result env) \<and>
        sessions_open_after (snd (fetch_page hub env url)) 0 = 0)
   \<and> ((startswith url ''http://'' \<or> startswith url ''https://'') \<and>
      Remote_result env hub = Some e \<longrightarrow>
        sessions_opened (snd (fetch_page hub env url)) = 0 \<and>
        closes_attempted (snd (fetch_page hub env url)) = 0 \<and>
        sessions_open_after (snd (fetch_page hub env url)) 0 = 0)
   \<and> (\<not> (startswith url ''http://'' \<or> startswith url ''https://'') \<longrightarrow>
        snd (fetch_page hub env url) = [])"
proof (intro conjI impI)
  assume h: "(startswith url ''http://'' \<or> startswith url ''https://'') \<and>
      Remote_result env hub = None \<and> set_page_load_timeout_result env 30 = None"
  then have v: "startswith url ''http://'' \<or> startswith url ''https://''"
    and r: "Remote_result env hub = None" and s: "set_page_load_timeout_result env 30 = None"
    by simp_all
  show "sessions_opened (snd (fetch_page hub env url)) = 1"
    by (rule fetch_page_trace_session(1) [OF v r s])
  show "closes_attempted (snd (fetch_page hub env url)) = 1"
    by (rule fetch_page_trace_session(2) [OF v r s])
  show "last (snd (fetch_page hub env url)) = (Quit, quit_result env)"
    by (rule fetch_page_trace_session(3) [OF v r s])
  show "sessions_open_after (snd (fetch_page hub env url)) 0 = 0"
    by (rule fetch_page_trace_session(4) [OF v r s])
next
  assume h: "(startswith url ''http://'' \<or> startswith url ''https://'') \<and>
      Remote_result env hub = Some e"
  then have eq: "fetch_page hub env url =
      (Inl (HTTPException 500 ''Internal server error''), [(Remote hub chrome_options, Some e)])"
    by (simp add: fetch_page_Remote_fails)
  show "sessions_opened (snd (fetch_page hub env url)) = 0"
    by (simp add: eq sessions_opened_def)
  show "closes_attempted (snd (fetch_page hub env url)) = 0"
    by (simp add: eq closes_attempted_def)
  show "sessions_open_after (snd (fetch_page hub env url)) 0 = 0"
    by (simp add: eq)
next
  assume "\<not> (startswith url ''http://'' \<or> startswith url ''https://'')"
  then show "snd (fetch_page hub env url) = []"
    by (simp add: fetch_page_def)
qed

theorem one_session_per_fetch_witness:
  "sessions_opened (snd (fetch_page ''http://hub:4444/wd/hub'' remote_quit_fails ''https://example.com'')) = 1
   \<and> closes_attempted (snd (fetch_page ''http://hub:4444/wd/hub'' remote_quit_fails ''https://example.com'')) = 1
   \<and> last (snd (fetch_page ''http://hub:4444/wd/hub'' remote_quit_fails ''https://example.com''))
       = (Quit, Some WebDriverException)
   \<and> sessions_open_after (snd (fetch_page ''http://hub:4444/wd/hub'' remote_quit_fails ''https://example.com'')) 0 = 0
   \<and> sessions_opened (snd (fetch_page ''http://hub:4444/wd/hub'' remote_down ''https://example.com'')) = 0
   \<and> closes_attempted (snd (fetch_page ''http://hub:4444/wd/hub'' remote_down ''https://example.com'')) = 0
   \<and> snd (fetch_page ''http://hub:4444/wd/hub'' remote_up ''ftp://example.com'') = []"
proof -
  have v: "startswith ''https://example.com'' ''http://'' \<or> startswith ''https://example.com'' ''https://''"
    by simp
  have nv: "\<not> (startswith ''ftp://example.com'' ''http://'' \<or> startswith ''ftp://example.com'' ''https://'')"
    by simp
  have r: "Remote_result remote_quit_fails ''http://hub:4444/wd/hub'' = None"
    and s: "set_page_load_timeout_result remote_quit_fails 30 = None"
    and q: "quit_result remote_quit_fails = Some WebDriverException"
    and d: "Remote_result remote_down ''http://hub:4444/wd/hub'' = Some Exception"
    by (simp_all add: example_defs)
  from one_session_per_fetch [of "''https://example.com''" remote_quit_fails "''http://hub:4444/wd/hub''"]
    one_session_per_fetch [of "''https://example.com''" remote_down "''http://hub:4444/wd/hub''" Exception]
    one_session_per_fetch [of "''ftp://example.com''" remote_up "''http://hub:4444/wd/hub''"]
    v nv r s q d
  show ?thesis by simp
qed

text \<open>
  C5 as stated counts one opened session for a validation failure too. The request for
  \<^verbatim>\<open>ftp://example.com\<close> opens none.
\<close>

theorem invalid_url_opens_no_session:
  "sessions_opened (snd (fetch_page (SELENIUM_HUB_URL environ_default) remote_up ''ftp://example.com'')) \<noteq> 1"
  by (simp add: fetch_page_def sessions_opened_def)

subsection \<open>C6: a failing close\<close>

text \<open>
  C6. What the handler returns or raises, and so the response, is the same whether
  \<^verbatim>\<open>driver.quit()\<close> raises or returns: the exception of a failing close never reaches the
  caller.
\<close>

theorem close_failure_keeps_outcome:
  "fst (fetch_page hub (env\<lparr>quit_result := Some e\<rparr>) url)
     = fst (fetch_page hub (env\<lparr>quit_result := None\<rparr>) url)
   \<and> fst (app environ (env\<lparr>quit_result := Some e\<rparr>) req)
     = fst (app environ (env\<lparr>quit_result := None\<rparr>) req)"
proof
  show h: "fst (fetch_page hub (env\<lparr>quit_result := Some e\<rparr>) url)
     = fst (fetch_page hub (env\<lparr>quit_result := None\<rparr>) url)" for hub url
    by (simp add: fetch_page_quit_result)
  show "fst (app environ (env\<lparr>quit_result := Some e\<rparr>) req)
     = fst (app environ (env\<lparr>quit_result := None\<rparr>) req)"
  proof (cases req)
    case (GET_root u)
    show ?thesis
    proof (cases u)
      case None
      with GET_root show ?thesis by (simp add: app_def)
    next
      case (Some a)
      with GET_root show ?thesis by (simp add: fst_app_GET_root h)
    qed
  qed (simp_all add: app_def)
qed

subsection \<open>C8: the two timeouts\<close>

text \<open>
  C8. In every run, each page-load timeout set at the remote end is 30, each readiness wait
  is started with the timeout 10, and each navigation runs with the page-load timeout 30 in
  force.
\<close>

theorem timeouts_are_fixed:
  "(\<forall>t \<in> set (page_load_timeouts (snd (app environ env req))). t = 30)
   \<and> (\<forall>t \<in> set (wait_timeouts (snd (app environ env req))). t = 10)
   \<and> (\<forall>t \<in> set (navigation_timeouts (snd (app environ env req)) None). t = Some 30)"
proof (cases req)
  case (GET_root u)
  show ?thesis
  proof (cases u)
    case None
    with GET_root show ?thesis by (simp add: app_def)
  next
    case (Some url)
    with GET_root show ?thesis
      using fetch_page_timeouts [of "SELENIUM_HUB_URL environ" env url]
      by (simp add: snd_app_GET_root)
  qed
qed (simp_all add: app_def)

theorem timeouts_are_fixed_witness:
  "30 \<in> set (page_load_timeouts (snd (app environ_default remote_up (GET_root (Some ''https://example.com'')))))
   \<and> 10 \<in> set (wait_timeouts (snd (app environ_default remote_up (GET_root (Some ''https://example.com'')))))
   \<and> Some 30 \<in> set (navigation_timeouts (snd (app environ_default remote_up (GET_root (Some ''https://example.com'')))) None)
   \<and> page_load_timeouts (snd (app environ_default remote_up (GET_root (Some ''https://example.com'')))) = [30]
   \<and> wait_timeouts (snd (app environ_default remote_up (GET_root (Some ''https://example.com'')))) = [10]
   \<and> navigation_timeouts (snd (app environ_default remote_up (GET_root (Some ''https://example.com'')))) None = [Some 30]"
  using timeouts_are_fixed [of environ_default remote_up "GET_root (Some ''https://example.com'')"]
  by (simp add: app_def handler_defs example_defs)

section \<open>The health route\<close>

text \<open>
  C7. A request to \<^verbatim>\<open>/health\<close> is answered 200 with the fixed payload
  \<^verbatim>\<open>{"status": "healthy", "service": "selenium-scraper"}\<close>, for every remote end and every
  process environment, and makes no call to the remote end.
\<close>

theorem health_is_always_200:
  "app environ env GET_health =
     (\<lparr>status_code = 200,
       payload = JSON [(''status'', ''healthy''), (''service'', ''selenium-scraper'')]\<rparr>, [])"
  by (simp add: app_def health_check_def)

end
